theory Spec2Isabelle
  imports Complex_Main
begin

section \<open>JavaScript numbers\<close>

text \<open>
  The calculator of \<^verbatim>\<open>src/App.tsx\<close> computes with JavaScript numbers, which are
  IEEE 754 doubles. A number is modelled as a finite rational, one of the two infinities,
  or NaN. Every arithmetic operation computes the exact rational result and rounds it to
  the nearest double, ties to even, with overflow to an infinity and gradual underflow to
  zero. The sign of zero is not tracked: the divisors of the program (the constants 12
  and 100, a sum that starts at \<open>+0\<close> and an array length) are never \<open>-0\<close>.
\<close>

datatype number = Fin rat | PInf | NInf | NaN

fun jneg :: "number \<Rightarrow> number" where
  "jneg (Fin a) = Fin (- a)"
| "jneg PInf = NInf"
| "jneg NInf = PInf"
| "jneg NaN = NaN"

subsection \<open>Rounding to the nearest double\<close>

text \<open>The number of binary digits of a positive integer.\<close>

function bits :: "int \<Rightarrow> int" where
  "bits n = (if n \<le> 0 then 0 else 1 + bits (n div 2))"
  by pat_completeness auto
termination
  by (relation "measure nat") auto

text \<open>Powers of two, by repeated squaring.\<close>

function pow2p :: "int \<Rightarrow> rat" where
  "pow2p e = (if e \<le> 0 then 1
              else let h = pow2p (e div 2) in if even e then h * h else 2 * (h * h))"
  by pat_completeness auto
termination
  by (relation "measure nat") auto

definition pow2 :: "int \<Rightarrow> rat" where
  "pow2 e = (if 0 \<le> e then pow2p e else 1 / pow2p (- e))"

text \<open>
  The binary exponent of a positive rational \<open>a\<close>: the \<open>e\<close> with
  \<^verbatim>\<open>2^e <= a < 2^(e+1)\<close>. For \<open>a \<ge> 1\<close> it is one less than the number of bits of the
  integer part; for \<open>a < 1\<close> it is minus the least \<open>n\<close> with \<^verbatim>\<open>2^n >= 1/a\<close>.
\<close>

definition flog2 :: "rat \<Rightarrow> int" where
  "flog2 a = (if 1 \<le> a then bits \<lfloor>a\<rfloor> - 1 else - bits (\<lceil>1 / a\<rceil> - 1))"

definition round_half_even :: "rat \<Rightarrow> int" where
  "round_half_even k =
     (let f = \<lfloor>k\<rfloor>; r = k - of_int f
      in if r < 1 / 2 then f else if 1 / 2 < r then f + 1 else if even f then f else f + 1)"

text \<open>
  A double has a significand of 53 bits and a unit in the last place of at least
  \<^verbatim>\<open>2^-1074\<close>; the largest double is \<^verbatim>\<open>(2^53 - 1) * 2^971\<close>. A positive rational
  is rounded to the nearest multiple of its unit in the last place, ties to the even
  multiple; a result of \<^verbatim>\<open>2^1024\<close> or more is \<open>+Infinity\<close>.
\<close>

definition rnd_pos :: "rat \<Rightarrow> number" where
  "rnd_pos a =
     (let e0 = flog2 a in
      if 1024 \<le> e0 then PInf
      else let e = max (e0 - 52) (- 1074);
               m = round_half_even (a / pow2 e)
           in if e = 971 \<and> 2 ^ 53 \<le> m then PInf else Fin (of_int m * pow2 e))"

definition rnd :: "rat \<Rightarrow> number" where
  "rnd q = (if q = 0 then Fin 0 else if 0 < q then rnd_pos q else jneg (rnd_pos (- q)))"

subsection \<open>Arithmetic\<close>

text \<open>
  Adding zero returns the other operand, as it does for every double; every other finite
  sum is rounded.
\<close>

fun jadd :: "number \<Rightarrow> number \<Rightarrow> number" where
  "jadd (Fin a) (Fin b) = (if b = 0 then Fin a else if a = 0 then Fin b else rnd (a + b))"
| "jadd NaN _ = NaN"
| "jadd _ NaN = NaN"
| "jadd PInf NInf = NaN"
| "jadd NInf PInf = NaN"
| "jadd PInf _ = PInf"
| "jadd _ PInf = PInf"
| "jadd NInf _ = NInf"
| "jadd _ NInf = NInf"

definition jsub :: "number \<Rightarrow> number \<Rightarrow> number" where
  "jsub x y = jadd x (jneg y)"

fun jmul :: "number \<Rightarrow> number \<Rightarrow> number" where
  "jmul (Fin a) (Fin b) = rnd (a * b)"
| "jmul NaN _ = NaN"
| "jmul _ NaN = NaN"
| "jmul (Fin a) y = (if a = 0 then NaN else if 0 < a then y else jneg y)"
| "jmul x (Fin b) = (if b = 0 then NaN else if 0 < b then x else jneg x)"
| "jmul PInf y = y"
| "jmul NInf y = jneg y"

fun jdiv :: "number \<Rightarrow> number \<Rightarrow> number" where
  "jdiv (Fin a) (Fin b) =
     (if b = 0 then (if a = 0 then NaN else if 0 < a then PInf else NInf)
      else rnd (a / b))"
| "jdiv NaN _ = NaN"
| "jdiv _ NaN = NaN"
| "jdiv (Fin a) _ = Fin 0"
| "jdiv x (Fin b) = (if b < 0 then jneg x else x)"
| "jdiv _ _ = NaN"

text \<open>The comparisons \<^verbatim>\<open><\<close> and \<^verbatim>\<open>>\<close>: false as soon as one side is NaN.\<close>

fun jlt :: "number \<Rightarrow> number \<Rightarrow> bool" where
  "jlt (Fin a) (Fin b) = (a < b)"
| "jlt (Fin a) PInf = True"
| "jlt NInf (Fin b) = True"
| "jlt NInf PInf = True"
| "jlt _ _ = False"

definition jgt :: "number \<Rightarrow> number \<Rightarrow> bool" where
  "jgt x y = jlt y x"

text \<open>\<^verbatim>\<open><=\<close>, used only to state properties.\<close>

fun jle :: "number \<Rightarrow> number \<Rightarrow> bool" where
  "jle NaN _ = False"
| "jle _ NaN = False"
| "jle x y = (x = y \<or> jlt x y)"

text \<open>Truthiness of a number: \<open>0\<close> and NaN are falsy.\<close>

definition truthy :: "number \<Rightarrow> bool" where
  "truthy x = (x \<noteq> Fin 0 \<and> x \<noteq> NaN)"

text \<open>\<^verbatim>\<open>x || 0\<close>\<close>

definition or0 :: "number \<Rightarrow> number" where
  "or0 x = (if truthy x then x else Fin 0)"

text \<open>\<^verbatim>\<open>xs.reduce((acc, x) => acc + x, 0)\<close>\<close>

definition jsum :: "number list \<Rightarrow> number" where
  "jsum xs = foldl (\<lambda>acc income. jadd acc income) (Fin 0) xs"

section \<open>Data model\<close>

text \<open>The discriminated union \<^verbatim>\<open>Participant\<close> over \<^verbatim>\<open>incomeType\<close>.\<close>

datatype participant =
    Hourly (name: string) (limited: bool) (hourlyRate: number) (hoursPerWeek: number)
  | Salary (name: string) (limited: bool) (annualSalary: number)

record billPay =
  amount :: number
  maximumLimit :: number
  minimumLimit :: number
  participants :: "participant list"

record relevantInfo =
  grossMonthlyIncome :: number
  percentageOfTotal :: number
  amountDue :: number
  adjustedDue :: number

text \<open>The component's state: the four \<^verbatim>\<open>useState\<close> cells of \<^verbatim>\<open>App\<close>.\<close>

record app_state =
  activeStep :: nat
  completed :: "nat \<rightharpoonup> bool"
  results :: "relevantInfo list"
  totalGrossState :: number

section \<open>The schema\<close>

text \<open>
  The checks of the zod schema: \<^verbatim>\<open>gt(0)\<close> on the rate, the hours and the salary,
  \<^verbatim>\<open>lt(24 * 7)\<close> on the hours, \<^verbatim>\<open>gt(0)\<close> on the amount; a coerced number is
  never NaN.
\<close>

fun Participant_valid :: "participant \<Rightarrow> bool" where
  "Participant_valid (Hourly n l rate hours) =
     (jgt rate (Fin 0) \<and> jgt hours (Fin 0) \<and> jlt hours (Fin (24 * 7)))"
| "Participant_valid (Salary n l salary) = jgt salary (Fin 0)"


definition BillPay_valid :: "billPay \<Rightarrow> bool" where
  "BillPay_valid data =
     (jgt (amount data) (Fin 0) \<and> maximumLimit data \<noteq> NaN \<and> minimumLimit data \<noteq> NaN
      \<and> list_all Participant_valid (participants data))"

text \<open>The spec's data model has real numbers only: every numeric field is finite.\<close>

fun is_fin :: "number \<Rightarrow> bool" where
  "is_fin (Fin a) = True"
| "is_fin _ = False"


fun Participant_finite :: "participant \<Rightarrow> bool" where
  "Participant_finite (Hourly n l rate hours) = (is_fin rate \<and> is_fin hours)"
| "Participant_finite (Salary n l salary) = is_fin salary"

definition BillPay_finite :: "billPay \<Rightarrow> bool" where
  "BillPay_finite data =
     (is_fin (amount data) \<and> is_fin (maximumLimit data) \<and> is_fin (minimumLimit data)
      \<and> list_all Participant_finite (participants data))"

section \<open>The submit handler \<^verbatim>\<open>onValid\<close>\<close>

text \<open>One participant's monthly gross income (the callback of the first \<^verbatim>\<open>map\<close>).\<close>

fun monthlyGross :: "participant \<Rightarrow> number" where
  "monthlyGross (Hourly n l rate hours) = jmul (jmul rate hours) (Fin 4)"
| "monthlyGross (Salary n l salary) = jdiv salary (Fin 12)"

definition participantMonthlyGross :: "billPay \<Rightarrow> number list" where
  "participantMonthlyGross data = map monthlyGross (participants data)"

definition nonLimitedParticipantCount :: "billPay \<Rightarrow> nat" where
  "nonLimitedParticipantCount data =
     length (filter (\<lambda>participant. \<not> limited participant) (participants data))"

definition totalGross :: "billPay \<Rightarrow> number" where
  "totalGross data = jsum (participantMonthlyGross data)"

definition incomePercentages :: "billPay \<Rightarrow> number list" where
  "incomePercentages data =
     map (\<lambda>income. jmul (jdiv income (totalGross data)) (Fin 100))
       (participantMonthlyGross data)"

definition nonLimitedDues :: "billPay \<Rightarrow> number list" where
  "nonLimitedDues data =
     map (\<lambda>index. let percentage = incomePercentages data ! index
                   in jmul (amount data) (jdiv percentage (Fin 100)))
       [0 ..< length (participantMonthlyGross data)]"

text \<open>
  The callback of the clamping \<^verbatim>\<open>map\<close>. It assigns to the variable
  \<^verbatim>\<open>deltaBalance\<close> of the enclosing scope: the model passes the balance in and
  returns it with the clamped due.
\<close>

definition applyLimit :: "billPay \<Rightarrow> number \<Rightarrow> nat \<Rightarrow> number \<Rightarrow> number \<times> number" where
  "applyLimit data due index deltaBalance =
     (let participant = participants data ! index in
      if limited participant then
        (let max = or0 (maximumLimit data);
             min = or0 (minimumLimit data)
         in if truthy max \<and> jgt due max then (max, jadd deltaBalance (jsub due max))
            else if truthy min \<and> jlt due min then (min, jadd deltaBalance (jsub due min))
            else (due, deltaBalance))
      else (due, deltaBalance))"

text \<open>
  The clamping \<^verbatim>\<open>map\<close> over the indices \<open>0, 1, \<dots>\<close> in order: the dues
  produced so far, and the balance.
\<close>

definition applyLimits :: "billPay \<Rightarrow> number list \<times> number" where
  "applyLimits data =
     foldl (\<lambda>(dues, deltaBalance) index.
              let (due, deltaBalance') =
                    applyLimit data (nonLimitedDues data ! index) index deltaBalance
              in (dues @ [due], deltaBalance'))
       ([], Fin 0) [0 ..< length (nonLimitedDues data)]"

definition limitedDues :: "billPay \<Rightarrow> number list" where
  "limitedDues data = fst (applyLimits data)"

definition deltaBalance :: "billPay \<Rightarrow> number" where
  "deltaBalance data = snd (applyLimits data)"

definition adjustedDues :: "billPay \<Rightarrow> number list" where
  "adjustedDues data =
     map (\<lambda>index. let due = limitedDues data ! index;
                       participant = participants data ! index
                   in if \<not> limited participant
                      then jadd due (jdiv (deltaBalance data)
                                       (Fin (of_nat (nonLimitedParticipantCount data))))
                      else due)
       [0 ..< length (limitedDues data)]"

definition onValid :: "billPay \<Rightarrow> app_state \<Rightarrow> app_state" where
  "onValid data s =
     s\<lparr> totalGrossState := totalGross data,
        results :=
          map (\<lambda>index. \<lparr> grossMonthlyIncome = participantMonthlyGross data ! index,
                          percentageOfTotal = incomePercentages data ! index,
                          amountDue = nonLimitedDues data ! index,
                          adjustedDue = adjustedDues data ! index \<rparr>)
            [0 ..< length (participants data)],
        completed := [0 \<mapsto> True, 1 \<mapsto> True],
        activeStep := 2 \<rparr>"

section \<open>The specification's formulas\<close>

text \<open>
  The specification's clamping rule for one participant, written from its text: the
  clamped due, and the amount that the participant adds to the delta balance. A limit
  is enabled when it is nonzero; the maximum is tried first; a participant who is not
  limited is never clamped and adds nothing.
\<close>

definition clamp_spec :: "number \<Rightarrow> number \<Rightarrow> bool \<Rightarrow> number \<Rightarrow> number \<times> number" where
  "clamp_spec maxL minL isLimited due =
     (if isLimited \<and> maxL \<noteq> Fin 0 \<and> jgt due maxL then (maxL, jsub due maxL)
      else if isLimited \<and> minL \<noteq> Fin 0 \<and> jlt due minL then (minL, jsub due minL)
      else (due, Fin 0))"

definition clampAt :: "billPay \<Rightarrow> nat \<Rightarrow> number \<times> number" where
  "clampAt data index =
     clamp_spec (maximumLimit data) (minimumLimit data)
       (limited (participants data ! index)) (nonLimitedDues data ! index)"

text \<open>
  The allocation result of the participant at an index, written from sections 3 and 4 of
  the specification as a function of the participant list and the bill parameters alone.
\<close>

definition gross_spec :: "participant \<Rightarrow> number" where
  "gross_spec p =
     (case p of Hourly n l rate hours \<Rightarrow> jmul (jmul rate hours) (Fin 4)
              | Salary n l salary \<Rightarrow> jdiv salary (Fin 12))"

definition total_spec :: "billPay \<Rightarrow> number" where
  "total_spec data = jsum (map gross_spec (participants data))"

definition percentage_spec :: "billPay \<Rightarrow> nat \<Rightarrow> number" where
  "percentage_spec data i =
     jmul (jdiv (gross_spec (participants data ! i)) (total_spec data)) (Fin 100)"

definition due_spec :: "billPay \<Rightarrow> nat \<Rightarrow> number" where
  "due_spec data i = jmul (amount data) (jdiv (percentage_spec data i) (Fin 100))"

definition delta_spec :: "billPay \<Rightarrow> number" where
  "delta_spec data =
     jsum (map (\<lambda>i. snd (clamp_spec (maximumLimit data) (minimumLimit data)
                          (limited (participants data ! i)) (due_spec data i)))
            [0 ..< length (participants data)])"

definition adjusted_spec :: "billPay \<Rightarrow> nat \<Rightarrow> number" where
  "adjusted_spec data i =
     (if limited (participants data ! i)
      then fst (clamp_spec (maximumLimit data) (minimumLimit data) True (due_spec data i))
      else jadd (due_spec data i)
             (jdiv (delta_spec data)
                (Fin (of_nat (length (filter (\<lambda>p. \<not> limited p) (participants data)))))))"

definition result_spec :: "billPay \<Rightarrow> nat \<Rightarrow> relevantInfo" where
  "result_spec data i =
     \<lparr> grossMonthlyIncome = gross_spec (participants data ! i),
       percentageOfTotal = percentage_spec data i,
       amountDue = due_spec data i,
       adjustedDue = adjusted_spec data i \<rparr>"

section \<open>Runs without rounding\<close>









section \<open>Numbers of the program\<close>

text \<open>
  Not every rational is a double. A finite value is a number of the program when rounding
  leaves it unchanged; the infinities and NaN are numbers of the program.
\<close>

definition is_number :: "number \<Rightarrow> bool" where
  "is_number x = (case x of Fin a \<Rightarrow> rnd a = Fin a | _ \<Rightarrow> True)"

fun Participant_numbers :: "participant \<Rightarrow> bool" where
  "Participant_numbers (Hourly n l rate hours) = (is_number rate \<and> is_number hours)"
| "Participant_numbers (Salary n l salary) = is_number salary"

definition BillPay_numbers :: "billPay \<Rightarrow> bool" where
  "BillPay_numbers data =
     (is_number (amount data) \<and> is_number (maximumLimit data) \<and> is_number (minimumLimit data)
      \<and> list_all Participant_numbers (participants data))"

section \<open>Example inputs\<close>

text \<open>The state of a freshly mounted component.\<close>

definition initialState :: app_state where
  "initialState = \<lparr> activeStep = 0, completed = Map.empty, results = [], totalGrossState = Fin 0 \<rparr>"

text \<open>Scenario B of the specification: one limited and one unlimited participant, a maximum of 400.\<close>

definition scenarioB :: billPay where
  "scenarioB = \<lparr> amount = Fin 1000, maximumLimit = Fin 400, minimumLimit = Fin 0,
      participants = [Salary ''A'' True (Fin 30000), Salary ''B'' False (Fin 30000)] \<rparr>"

text \<open>Scenario D: every participant is limited and exceeds the maximum.\<close>

definition scenarioD :: billPay where
  "scenarioD = \<lparr> amount = Fin 1000, maximumLimit = Fin 400, minimumLimit = Fin 0,
      participants = [Salary ''A'' True (Fin 30000), Salary ''B'' True (Fin 30000)] \<rparr>"

text \<open>The form's default participants and limits, with a bill of 1000.\<close>

definition defaultValues :: billPay where
  "defaultValues = \<lparr> amount = Fin 1000, maximumLimit = Fin 600, minimumLimit = Fin 200,
      participants = [Salary ''Participant 1'' False (Fin 30000),
                      Hourly ''Participant 2'' False (Fin 15) (Fin 40)] \<rparr>"

text \<open>A band of 200 to 400 with one limited participant below it and one above it.\<close>

definition bandExample :: billPay where
  "bandExample = \<lparr> amount = Fin 1000, maximumLimit = Fin 400, minimumLimit = Fin 200,
      participants = [Salary ''A'' True (Fin 12000), Salary ''B'' True (Fin 60000),
                      Salary ''C'' False (Fin 24000)] \<rparr>"

text \<open>Three equal salaries and no limits: a third of the total is not a double.\<close>

definition thirds :: billPay where
  "thirds = \<lparr> amount = Fin 1000, maximumLimit = Fin 0, minimumLimit = Fin 0,
      participants = [Salary ''A'' False (Fin 12000), Salary ''B'' False (Fin 12000),
                      Salary ''C'' False (Fin 12000)] \<rparr>"

text \<open>A minimum far above the bill: the due of 500 is absorbed when subtracted from it.\<close>

definition absorbed :: billPay where
  "absorbed = \<lparr> amount = Fin 1000, maximumLimit = Fin 0, minimumLimit = Fin (10 ^ 20),
      participants = [Salary ''A'' True (Fin 30000), Salary ''B'' False (Fin 30000)] \<rparr>"


text \<open>An hourly rate equal to the largest power of two among the doubles.\<close>

definition hugeRate :: billPay where
  "hugeRate = \<lparr> amount = Fin 1000, maximumLimit = Fin 400, minimumLimit = Fin 200,
      participants = [Hourly ''A'' True (Fin (pow2 1023)) (Fin 100)] \<rparr>"

section \<open>Properties of rounding\<close>

declare bits.simps [simp del] pow2p.simps [simp del]

lemma pow2p_eq: "pow2p e = 2 ^ nat e"
proof (induction e rule: pow2p.induct)
  case (1 e)
  show ?case
  proof (cases "e \<le> 0")
    case True
    then show ?thesis by (simp add: pow2p.simps [of e])
  next
    case False
    then have h: "pow2p (e div 2) = 2 ^ nat (e div 2)" using 1 by simp
    show ?thesis
    proof (cases "even e")
      case True
      then have "nat e = nat (e div 2) + nat (e div 2)" using False by (auto elim!: evenE)
      then have "(2::rat) ^ nat e = 2 ^ nat (e div 2) * 2 ^ nat (e div 2)"
        by (simp add: power_add [symmetric])
      then show ?thesis using False True h by (simp add: pow2p.simps [of e] Let_def)
    next
      case odd: False
      then have "nat e = Suc (nat (e div 2) + nat (e div 2))" using False by (auto elim!: oddE)
      then have "(2::rat) ^ nat e = 2 * (2 ^ nat (e div 2) * 2 ^ nat (e div 2))"
        by (simp add: power_add [symmetric])
      then show ?thesis using False odd h by (simp add: pow2p.simps [of e] Let_def)
    qed
  qed
qed

lemma pow2_nonneg_exp: "0 \<le> e \<Longrightarrow> pow2 e = 2 ^ nat e"
  by (simp add: pow2_def pow2p_eq)


lemma pow2_pos: "0 < pow2 e"
  by (simp add: pow2_def pow2p_eq)

lemma bits_nonneg: "0 \<le> bits n"
  by (induction n rule: bits.induct) (simp add: bits.simps)

lemma bits_lower: "2 ^ k \<le> n \<Longrightarrow> int k + 1 \<le> bits n"
proof (induction k arbitrary: n)
  case 0
  then have "0 < n" by simp
  then show ?case using bits_nonneg [of "n div 2"] by (simp add: bits.simps [of n])
next
  case (Suc k)
  then have "2 ^ k \<le> n div 2" by simp
  then have "int k + 1 \<le> bits (n div 2)" by (rule Suc.IH)
  moreover have "0 < n" using Suc.prems by (smt (verit) zero_less_power)
  ultimately show ?case by (simp add: bits.simps [of n])
qed




lemma flog2_ge:
  assumes "2 ^ n \<le> a"
  shows "int n \<le> flog2 a"
proof -
  have "(1::rat) \<le> 2 ^ n" by (rule one_le_power) simp
  then have 1: "1 \<le> a" using assms by (rule order_trans)
  have "of_int (2 ^ n) \<le> a" using assms by simp
  then have "(2::int) ^ n \<le> \<lfloor>a\<rfloor>" by (simp only: le_floor_iff)
  then have "int n + 1 \<le> bits \<lfloor>a\<rfloor>" by (rule bits_lower)
  then show ?thesis using 1 by (simp add: flog2_def)
qed



text \<open>Overflow: from \<open>2 ^ 1024\<close> on, the result is \<open>+Infinity\<close>.\<close>

lemma rnd_overflow:
  assumes "pow2 1024 \<le> a"
  shows "rnd a = PInf"
proof -
  have "2 ^ nat 1024 \<le> a" using assms pow2_nonneg_exp [of 1024] by simp
  then have "int (nat 1024) \<le> flog2 a" by (rule flog2_ge)
  then have e0: "1024 \<le> flog2 a" by simp
  have "0 < a" using pow2_pos assms by (rule less_le_trans)
  then show ?thesis using e0 by (simp add: rnd_def rnd_pos_def Let_def)
qed


text \<open>Spot checks against doubles: 10000 / 12, 1 / 10, and the absorption of 500 by \<^verbatim>\<open>1e20\<close>.\<close>

lemma rnd_spot_checks:
  "rnd (10000 / 12) = Fin (7330077518506667 / 8796093022208)"
  "rnd (1 / 10) = Fin (3602879701896397 / 36028797018963968)"
  "rnd (500 - 10 ^ 20) = Fin (- (10 ^ 20))"
  "rnd (2 ^ 53 + 1) = Fin (2 ^ 53)"
  "rnd (2 ^ 53 + 3) = Fin (2 ^ 53 + 4)"
  by code_simp+

subsection \<open>Some doubles\<close>

lemma bits_upper: "0 \<le> n \<Longrightarrow> n < 2 ^ k \<Longrightarrow> bits n \<le> int k"
proof (induction k arbitrary: n)
  case 0
  then have "n = 0" by simp
  then show ?case by (simp add: bits.simps)
next
  case (Suc k)
  show ?case
  proof (cases "n = 0")
    case True
    then show ?thesis by (simp add: bits.simps)
  next
    case False
    have "n div 2 < 2 ^ k" using Suc.prems by simp
    moreover have "0 \<le> n div 2" using Suc.prems by simp
    ultimately have "bits (n div 2) \<le> int k" by (rule Suc.IH [rotated])
    then show ?thesis using False Suc.prems(1) by (simp add: bits.simps [of n])
  qed
qed

lemma flog2_pow2: "flog2 (2 ^ n) = int n"
proof -
  have 1: "(1::rat) \<le> 2 ^ n" by (rule one_le_power) simp
  have "(2::rat) ^ n = of_int (2 ^ n)" by simp
  then have f: "\<lfloor>(2::rat) ^ n\<rfloor> = 2 ^ n" by (simp only: floor_of_int)
  have "int n + 1 \<le> bits (2 ^ n)" by (rule bits_lower) simp
  moreover have "bits (2 ^ n) \<le> int (Suc n)" by (rule bits_upper) simp_all
  ultimately have "bits (2 ^ n) = int n + 1" by simp
  then show ?thesis using 1 f by (simp add: flog2_def)
qed

lemma round_half_even_int: "round_half_even (of_int z) = z"
  by (simp add: round_half_even_def)


text \<open>The powers of two from \<^verbatim>\<open>2^52\<close> to \<^verbatim>\<open>2^1023\<close> are doubles.\<close>

lemma rnd_pow2:
  assumes "52 \<le> n" and "n \<le> 1023"
  shows "rnd (2 ^ n) = Fin (2 ^ n)"
proof -
  have e: "max (int n - 52) (- 1074) = int (n - 52)" using assms(1) by simp
  have p: "pow2 (int (n - 52)) = 2 ^ (n - 52)" by (simp add: pow2_nonneg_exp)
  have n: "52 + (n - 52) = n" using assms(1) by simp
  have s: "(2::rat) ^ n = 2 ^ 52 * 2 ^ (n - 52)"
    using power_add [of "2::rat" 52 "n - 52"] unfolding n .
  have "(2::rat) ^ n / pow2 (int (n - 52)) = of_int (2 ^ 52)"
    unfolding p s by simp
  then have m: "round_half_even (2 ^ n / pow2 (int (n - 52))) = 2 ^ 52"
    by (simp only: round_half_even_int)
  have "rnd_pos (2 ^ n) = Fin (of_int (2 ^ 52) * pow2 (int (n - 52)))"
    unfolding rnd_pos_def Let_def flog2_pow2 e m using assms(2) by simp
  also have "\<dots> = Fin (2 ^ n)" unfolding p s by simp
  finally show ?thesis by (simp add: rnd_def)
qed

lemma rnd_pow2_1023: "rnd (pow2 1023) = Fin (pow2 1023)"
proof -
  have p: "pow2 1023 = 2 ^ nat 1023" by (rule pow2_nonneg_exp) simp
  show ?thesis unfolding p by (rule rnd_pow2) simp_all
qed


section \<open>Lengths\<close>

lemma length_participantMonthlyGross [simp]:
  "length (participantMonthlyGross data) = length (participants data)"
  by (simp add: participantMonthlyGross_def)

lemma length_incomePercentages [simp]:
  "length (incomePercentages data) = length (participants data)"
  by (simp add: incomePercentages_def)

lemma length_nonLimitedDues [simp]:
  "length (nonLimitedDues data) = length (participants data)"
  by (simp add: nonLimitedDues_def)

section \<open>Adding zero\<close>

lemma jadd_zero_right [simp]: "jadd x (Fin 0) = x"
  by (cases x) auto

lemma jadd_zero_left [simp]: "jadd (Fin 0) x = x"
  by (cases x) auto

lemma jlt_NaN_right [simp]: "jlt x NaN = False"
  by (cases x) auto


lemma jsum_zeros: "jsum (map (\<lambda>i. Fin 0) xs) = Fin 0"
  unfolding jsum_def by (induction xs) simp_all

lemma jdiv_zero_left: "b \<noteq> 0 \<Longrightarrow> jdiv (Fin 0) (Fin b) = Fin 0"
  by (simp add: rnd_def)

section \<open>The clamping loop\<close>

lemma applyLimit_clamp_spec:
  "applyLimit data due index delta =
     (let c = clamp_spec (maximumLimit data) (minimumLimit data)
                (limited (participants data ! index)) due
      in (fst c, jadd delta (snd c)))"
  by (auto simp: applyLimit_def clamp_spec_def or0_def truthy_def jgt_def Let_def)

lemma applyLimits_upto:
  "foldl (\<lambda>(dues, deltaBalance) index.
              let (due, deltaBalance') =
                    applyLimit data (nonLimitedDues data ! index) index deltaBalance
              in (dues @ [due], deltaBalance'))
       ([], Fin 0) [0 ..< n]
   = (map (\<lambda>i. fst (clampAt data i)) [0 ..< n],
      foldl jadd (Fin 0) (map (\<lambda>i. snd (clampAt data i)) [0 ..< n]))"
  by (induction n) (simp_all add: applyLimit_clamp_spec clampAt_def Let_def)

lemma applyLimits_eq:
  "applyLimits data =
     (map (\<lambda>i. fst (clampAt data i)) [0 ..< length (participants data)],
      foldl jadd (Fin 0) (map (\<lambda>i. snd (clampAt data i)) [0 ..< length (participants data)]))"
  unfolding applyLimits_def length_nonLimitedDues by (rule applyLimits_upto)

lemma limitedDues_eq:
  "limitedDues data = map (\<lambda>i. fst (clampAt data i)) [0 ..< length (participants data)]"
  by (simp add: limitedDues_def applyLimits_eq)

lemma deltaBalance_eq:
  "deltaBalance data = jsum (map (\<lambda>i. snd (clampAt data i)) [0 ..< length (participants data)])"
  by (simp add: deltaBalance_def applyLimits_eq jsum_def)

lemma length_limitedDues [simp]: "length (limitedDues data) = length (participants data)"
  by (simp add: limitedDues_eq)

lemma length_adjustedDues [simp]: "length (adjustedDues data) = length (participants data)"
  by (simp add: adjustedDues_def)

lemma length_results [simp]: "length (results (onValid data s)) = length (participants data)"
  by (simp add: onValid_def)

section \<open>The lists, entry by entry\<close>

lemma results_nth:
  "index < length (participants data) \<Longrightarrow>
   results (onValid data s) ! index =
     \<lparr> grossMonthlyIncome = participantMonthlyGross data ! index,
       percentageOfTotal = incomePercentages data ! index,
       amountDue = nonLimitedDues data ! index,
       adjustedDue = adjustedDues data ! index \<rparr>"
  by (simp add: onValid_def)

lemma adjustedDues_nth:
  "index < length (participants data) \<Longrightarrow>
   adjustedDues data ! index =
     (if \<not> limited (participants data ! index)
      then jadd (limitedDues data ! index)
             (jdiv (deltaBalance data) (Fin (of_nat (nonLimitedParticipantCount data))))
      else limitedDues data ! index)"
  by (simp add: adjustedDues_def Let_def)

lemma limitedDues_nth:
  "index < length (participants data) \<Longrightarrow> limitedDues data ! index = fst (clampAt data index)"
  by (simp add: limitedDues_eq)

lemma nonLimitedDues_nth:
  "index < length (participants data) \<Longrightarrow>
   nonLimitedDues data ! index =
     jmul (amount data) (jdiv (incomePercentages data ! index) (Fin 100))"
  by (simp add: nonLimitedDues_def Let_def)

lemma incomePercentages_nth:
  "index < length (participants data) \<Longrightarrow>
   incomePercentages data ! index =
     jmul (jdiv (participantMonthlyGross data ! index) (totalGross data)) (Fin 100)"
  by (simp add: incomePercentages_def)

lemma participantMonthlyGross_nth:
  "index < length (participants data) \<Longrightarrow>
   participantMonthlyGross data ! index = monthlyGross (participants data ! index)"
  by (simp add: participantMonthlyGross_def)




lemma count_card:
  "nonLimitedParticipantCount data
     = card {i. i < length (participants data) \<and> \<not> limited (participants data ! i)}"
  by (simp add: nonLimitedParticipantCount_def length_filter_conv_card)

lemma count_pos:
  assumes "index < length (participants data)" and "\<not> limited (participants data ! index)"
  shows "0 < nonLimitedParticipantCount data"
proof -
  have "participants data ! index \<in> set (filter (\<lambda>p. \<not> limited p) (participants data))"
    using assms by simp
  then show ?thesis
    unfolding nonLimitedParticipantCount_def by (rule length_pos_if_in_set)
qed

section \<open>Traces of the example inputs\<close>

text \<open>Each list of the handler, computed once for each example.\<close>

lemma bandExample_fields:
  "amount bandExample = Fin 1000" "maximumLimit bandExample = Fin 400"
  "minimumLimit bandExample = Fin 200"
  "participants bandExample =
     [Salary ''A'' True (Fin 12000), Salary ''B'' True (Fin 60000), Salary ''C'' False (Fin 24000)]"
  by (simp_all add: bandExample_def)

lemma bandExample_gross: "participantMonthlyGross bandExample = [Fin 1000, Fin 5000, Fin 2000]"
  unfolding participantMonthlyGross_def bandExample_fields by code_simp

lemma bandExample_total: "totalGross bandExample = Fin 8000"
  unfolding totalGross_def bandExample_gross by code_simp

lemma bandExample_percentages: "incomePercentages bandExample = [Fin (25 / 2), Fin (125 / 2), Fin 25]"
  unfolding incomePercentages_def bandExample_gross bandExample_total by code_simp

lemma bandExample_dues: "nonLimitedDues bandExample = [Fin 125, Fin 625, Fin 250]"
  unfolding nonLimitedDues_def bandExample_gross bandExample_percentages bandExample_fields
  by code_simp




















lemma scenarioD_fields:
  "amount scenarioD = Fin 1000" "maximumLimit scenarioD = Fin 400"
  "minimumLimit scenarioD = Fin 0"
  "participants scenarioD = [Salary ''A'' True (Fin 30000), Salary ''B'' True (Fin 30000)]"
  by (simp_all add: scenarioD_def)

lemma scenarioD_gross: "participantMonthlyGross scenarioD = [Fin 2500, Fin 2500]"
  unfolding participantMonthlyGross_def scenarioD_fields by code_simp

lemma scenarioD_total: "totalGross scenarioD = Fin 5000"
  unfolding totalGross_def scenarioD_gross by code_simp

lemma scenarioD_percentages: "incomePercentages scenarioD = [Fin 50, Fin 50]"
  unfolding incomePercentages_def scenarioD_gross scenarioD_total by code_simp

lemma scenarioD_dues: "nonLimitedDues scenarioD = [Fin 500, Fin 500]"
  unfolding nonLimitedDues_def scenarioD_gross scenarioD_percentages scenarioD_fields by code_simp

lemma scenarioD_limits: "applyLimits scenarioD = ([Fin 400, Fin 400], Fin 200)"
  unfolding applyLimits_def scenarioD_dues by code_simp

lemma scenarioD_count: "nonLimitedParticipantCount scenarioD = 0"
  unfolding nonLimitedParticipantCount_def scenarioD_fields by code_simp

lemma scenarioD_adjusted: "adjustedDues scenarioD = [Fin 400, Fin 400]"
  unfolding adjustedDues_def limitedDues_def deltaBalance_def scenarioD_limits
    scenarioD_count scenarioD_fields
  by code_simp

lemma pow2_double: "0 \<le> e \<Longrightarrow> pow2 (e + 1) = 2 * pow2 e"
proof -
  assume e: "0 \<le> e"
  then have "nat (e + 1) = Suc (nat e)" by simp
  then show ?thesis using e by (simp add: pow2_nonneg_exp)
qed

lemma hugeRate_fields:
  "amount hugeRate = Fin 1000" "maximumLimit hugeRate = Fin 400"
  "minimumLimit hugeRate = Fin 200"
  "participants hugeRate = [Hourly ''A'' True (Fin (pow2 1023)) (Fin 100)]"
  by (simp_all add: hugeRate_def)

lemma hugeRate_gross: "participantMonthlyGross hugeRate = [PInf]"
proof -
  have "pow2 (1023 + 1) = 2 * pow2 1023" by (rule pow2_double) simp
  then have "pow2 1024 \<le> pow2 1023 * 100" using pow2_pos [of 1023] by simp
  then have "rnd (pow2 1023 * 100) = PInf" by (rule rnd_overflow)
  then show ?thesis by (simp add: participantMonthlyGross_def hugeRate_fields)
qed

lemma hugeRate_total: "totalGross hugeRate = PInf"
  by (simp add: totalGross_def hugeRate_gross jsum_def)

lemma hugeRate_percentages: "incomePercentages hugeRate = [NaN]"
  by (simp add: incomePercentages_def hugeRate_gross hugeRate_total)

lemma hugeRate_dues: "nonLimitedDues hugeRate = [NaN]"
  by (simp add: nonLimitedDues_def hugeRate_gross hugeRate_percentages hugeRate_fields)

lemma hugeRate_adjusted: "adjustedDues hugeRate = [NaN]"
proof -
  have "applyLimits hugeRate = ([NaN], Fin 0)"
    by (simp add: applyLimits_def hugeRate_dues applyLimit_def hugeRate_fields or0_def
          truthy_def jgt_def)
  then show ?thesis
    by (simp add: adjustedDues_def limitedDues_def deltaBalance_def hugeRate_fields)
qed


lemma scenarioB_fields:
  "amount scenarioB = Fin 1000" "maximumLimit scenarioB = Fin 400"
  "minimumLimit scenarioB = Fin 0"
  "participants scenarioB = [Salary ''A'' True (Fin 30000), Salary ''B'' False (Fin 30000)]"
  by (simp_all add: scenarioB_def)

lemma scenarioB_gross: "participantMonthlyGross scenarioB = [Fin 2500, Fin 2500]"
  unfolding participantMonthlyGross_def scenarioB_fields by code_simp

lemma scenarioB_total: "totalGross scenarioB = Fin 5000"
  unfolding totalGross_def scenarioB_gross by code_simp

lemma scenarioB_percentages: "incomePercentages scenarioB = [Fin 50, Fin 50]"
  unfolding incomePercentages_def scenarioB_gross scenarioB_total by code_simp

lemma scenarioB_dues: "nonLimitedDues scenarioB = [Fin 500, Fin 500]"
  unfolding nonLimitedDues_def scenarioB_gross scenarioB_percentages scenarioB_fields by code_simp

lemma scenarioB_limits: "applyLimits scenarioB = ([Fin 400, Fin 500], Fin 100)"
  unfolding applyLimits_def scenarioB_dues by code_simp

lemma scenarioB_count: "nonLimitedParticipantCount scenarioB = 1"
  unfolding nonLimitedParticipantCount_def scenarioB_fields by code_simp

text \<open>The fields of the examples are numbers of the program.\<close>

lemma numbers_examples:
  "BillPay_numbers scenarioB" "BillPay_numbers scenarioD" "BillPay_numbers defaultValues"
  "BillPay_numbers bandExample" "BillPay_numbers thirds" "BillPay_numbers absorbed"
  by code_simp+

lemma numbers_hugeRate: "BillPay_numbers hugeRate"
proof -
  have "rnd 1000 = Fin 1000" "rnd 400 = Fin 400" "rnd 200 = Fin 200" "rnd 100 = Fin 100"
    by code_simp+
  then show ?thesis
    by (simp add: BillPay_numbers_def hugeRate_def is_number_def rnd_pow2_1023)
qed


section \<open>The handler computes the specification's formulas\<close>

lemma monthlyGross_spec: "monthlyGross = gross_spec"
proof
  fix p show "monthlyGross p = gross_spec p" by (cases p) (simp_all add: gross_spec_def)
qed

lemma totalGross_spec: "totalGross data = total_spec data"
  by (simp add: totalGross_def total_spec_def participantMonthlyGross_def monthlyGross_spec)

lemma incomePercentages_spec:
  "index < length (participants data) \<Longrightarrow>
   incomePercentages data ! index = percentage_spec data index"
  by (simp add: incomePercentages_nth participantMonthlyGross_nth percentage_spec_def
        monthlyGross_spec totalGross_spec)

lemma nonLimitedDues_spec:
  "index < length (participants data) \<Longrightarrow> nonLimitedDues data ! index = due_spec data index"
  by (simp add: nonLimitedDues_nth incomePercentages_spec due_spec_def)

lemma deltaBalance_spec: "deltaBalance data = delta_spec data"
proof -
  have "map (\<lambda>i. snd (clampAt data i)) [0 ..< length (participants data)]
      = map (\<lambda>i. snd (clamp_spec (maximumLimit data) (minimumLimit data)
                          (limited (participants data ! i)) (due_spec data i)))
            [0 ..< length (participants data)]"
    by (rule map_cong) (simp_all add: clampAt_def nonLimitedDues_spec)
  then show ?thesis unfolding deltaBalance_eq delta_spec_def by (rule arg_cong)
qed

lemma adjustedDues_spec:
  "index < length (participants data) \<Longrightarrow>
   adjustedDues data ! index = adjusted_spec data index"
  by (simp add: adjustedDues_nth limitedDues_nth clampAt_def clamp_spec_def nonLimitedDues_spec
        adjusted_spec_def deltaBalance_spec nonLimitedParticipantCount_def)

section \<open>What an exact run computes\<close>
























section \<open>Bounds\<close>

lemma clamp_spec_bounds:
  assumes "maxL \<noteq> Fin 0" and "minL \<noteq> Fin 0" and "jle minL maxL" and "due \<noteq> NaN"
  shows "jle minL (fst (clamp_spec maxL minL True due))
       \<and> jle (fst (clamp_spec maxL minL True due)) maxL"
  using assms
  by (cases maxL; cases minL; cases due) (auto simp: clamp_spec_def jgt_def)









section \<open>Monthly gross income\<close>

text \<open>
  Claim C5. The gross monthly income stored for a participant is the hourly rate times the
  hours per week times 4 for an hourly participant, and the annual salary divided by 12
  for a salaried one, each operation being the program's own (rounded) multiplication or
  division; a rate of 15 with 40 hours a week gives exactly 2400.
\<close>

theorem C5_grossMonthlyIncome:
  "index < length (participants data) \<Longrightarrow>
     grossMonthlyIncome (results (onValid data s) ! index) =
       (case participants data ! index of
          Hourly n l rate hours \<Rightarrow> jmul (jmul rate hours) (Fin 4)
        | Salary n l salary \<Rightarrow> jdiv salary (Fin 12))
   \<and> monthlyGross (Hourly n l (Fin 15) (Fin 40)) = Fin 2400"
proof -
  have "rnd (15 * 40) = Fin 600" "rnd (600 * 4) = Fin 2400" by code_simp+
  then have "monthlyGross (Hourly n l (Fin 15) (Fin 40)) = Fin 2400" by simp
  moreover assume "index < length (participants data)"
  ultimately show ?thesis
    by (cases "participants data ! index")
       (simp_all add: results_nth participantMonthlyGross_nth)
qed

theorem C5_grossMonthlyIncome_witness:
  "1 < length (participants defaultValues)
   \<and> participants defaultValues ! 1 = Hourly ''Participant 2'' False (Fin 15) (Fin 40)
   \<and> grossMonthlyIncome (results (onValid defaultValues initialState) ! 1) = Fin 2400"
proof -
  have h: "1 < length (participants defaultValues)" by (simp add: defaultValues_def)
  have p: "participants defaultValues ! 1 = Hourly ''Participant 2'' False (Fin 15) (Fin 40)"
    by (simp add: defaultValues_def)
  have "jmul (jmul (Fin 15) (Fin 40)) (Fin 4) = monthlyGross (Hourly ''Participant 2'' False (Fin 15) (Fin 40))"
    by simp
  with C5_grossMonthlyIncome [OF h, of initialState "''Participant 2''" False] p h
  show ?thesis by simp
qed




section \<open>Clamping and redistribution\<close>

text \<open>
  Claim C3. The clamping pass treats every participant by the rule of the specification:
  a limited participant whose due exceeds a nonzero maximum is clamped to the maximum,
  otherwise one whose due is below a nonzero minimum is clamped to the minimum, otherwise
  the due is unchanged; a participant who is not limited is never clamped. The delta
  balance is the sum, in list order, of what each participant adds: the due minus the
  limit when clamped, nothing otherwise. The last conjunct is the same rule for a single
  call of the callback with any due and any balance.
\<close>

theorem C3_clamping_pass:
  "index < length (participants data) \<Longrightarrow>
     limitedDues data ! index =
       fst (clamp_spec (maximumLimit data) (minimumLimit data)
              (limited (participants data ! index)) (nonLimitedDues data ! index))
   \<and> deltaBalance data =
       jsum (map (\<lambda>i. snd (clamp_spec (maximumLimit data) (minimumLimit data)
                            (limited (participants data ! i)) (nonLimitedDues data ! i)))
              [0 ..< length (participants data)])
   \<and> applyLimit data due index delta =
       (fst (clamp_spec (maximumLimit data) (minimumLimit data)
               (limited (participants data ! index)) due),
        jadd delta (snd (clamp_spec (maximumLimit data) (minimumLimit data)
               (limited (participants data ! index)) due)))"
  using deltaBalance_eq [of data]
  by (simp add: limitedDues_nth applyLimit_clamp_spec clampAt_def Let_def)

theorem C3_clamping_pass_witness:
  "1 < length (participants bandExample)
   \<and> nonLimitedDues bandExample = [Fin 125, Fin 625, Fin 250]
   \<and> limitedDues bandExample ! 1 = Fin 400
   \<and> deltaBalance bandExample = Fin 150
   \<and> applyLimit bandExample (Fin 625) 1 (Fin (- 75)) = (Fin 400, Fin 150)"
proof -
  have h: "1 < length (participants bandExample)" by (simp add: bandExample_fields)
  have u: "[0 ..< 3] = [0, 1, 2]" by code_simp
  have c: "clamp_spec (Fin 400) (Fin 200) True (Fin 125) = (Fin 200, Fin (- 75))"
    "clamp_spec (Fin 400) (Fin 200) True (Fin 625) = (Fin 400, Fin 225)"
    "clamp_spec (Fin 400) (Fin 200) False (Fin 250) = (Fin 250, Fin 0)"
    by code_simp+
  have j: "jsum [Fin (- 75), Fin 225, Fin 0] = Fin 150" "rnd 150 = Fin 150"
    by code_simp+
  from C3_clamping_pass [OF h, of "Fin 625" "Fin (- 75)"] h show ?thesis
    by (simp add: bandExample_fields bandExample_dues u c j)
qed

text \<open>
  Claim C4. In the redistribution pass a participant who is not limited gets the
  unadjusted due plus the delta balance divided by the number of participants who are
  not limited; a limited participant keeps the clamped due.
\<close>

theorem C4_redistribution:
  "index < length (participants data) \<Longrightarrow>
     adjustedDue (results (onValid data s) ! index) =
       (if \<not> limited (participants data ! index)
        then jadd (amountDue (results (onValid data s) ! index))
               (jdiv (deltaBalance data) (Fin (of_nat (nonLimitedParticipantCount data))))
        else limitedDues data ! index)
   \<and> nonLimitedParticipantCount data =
       card {i. i < length (participants data) \<and> \<not> limited (participants data ! i)}"
  using count_card [of data]
  by (simp add: results_nth adjustedDues_nth limitedDues_nth clampAt_def clamp_spec_def)

theorem C4_redistribution_witness:
  "1 < length (participants scenarioB)
   \<and> \<not> limited (participants scenarioB ! 1)
   \<and> amountDue (results (onValid scenarioB initialState) ! 1) = Fin 500
   \<and> deltaBalance scenarioB = Fin 100
   \<and> nonLimitedParticipantCount scenarioB = 1
   \<and> adjustedDue (results (onValid scenarioB initialState) ! 1) = Fin 600"
proof -
  have h: "1 < length (participants scenarioB)" by (simp add: scenarioB_fields)
  have l: "\<not> limited (participants scenarioB ! 1)" by (simp add: scenarioB_fields)
  have a: "amountDue (results (onValid scenarioB initialState) ! 1) = Fin 500"
    unfolding results_nth [OF h] scenarioB_dues by simp
  have d: "deltaBalance scenarioB = Fin 100" by (simp add: deltaBalance_def scenarioB_limits)
  have k: "nonLimitedParticipantCount scenarioB = 1" by (rule scenarioB_count)
  have j: "jadd (Fin 500) (jdiv (Fin 100) (Fin 1)) = Fin 600" by code_simp
  from C4_redistribution [OF h, of initialState, THEN conjunct1] h l a d k j
  show ?thesis by simp
qed

text \<open>
  Claim C7. When no participant is limited, the adjusted due of every participant is the
  unadjusted due.
\<close>

theorem C7_no_limited:
  assumes "list_all (\<lambda>p. \<not> limited p) (participants data)"
    and "index < length (participants data)"
  shows "adjustedDue (results (onValid data s) ! index)
           = amountDue (results (onValid data s) ! index)"
proof -
  have unl: "\<not> limited (participants data ! i)" if "i < length (participants data)" for i
    using assms(1) that by (simp add: list_all_length)
  have z: "map (\<lambda>i. snd (clampAt data i)) [0 ..< length (participants data)]
      = map (\<lambda>i. Fin 0) [0 ..< length (participants data)]"
    by (rule map_cong) (simp_all add: clampAt_def clamp_spec_def unl)
  have d: "deltaBalance data = Fin 0" unfolding deltaBalance_eq z by (rule jsum_zeros)
  have k: "of_nat (nonLimitedParticipantCount data) \<noteq> (0::rat)"
    using count_pos [OF assms(2) unl [OF assms(2)]] by simp
  show ?thesis
    using unl [OF assms(2)] jdiv_zero_left [OF k]
    by (simp add: results_nth [OF assms(2)] adjustedDues_nth [OF assms(2)]
          limitedDues_nth [OF assms(2)] clampAt_def clamp_spec_def d)
qed

theorem C7_no_limited_witness:
  "list_all (\<lambda>p. \<not> limited p) (participants defaultValues)
   \<and> 0 < length (participants defaultValues)
   \<and> adjustedDue (results (onValid defaultValues initialState) ! 0)
       = amountDue (results (onValid defaultValues initialState) ! 0)"
proof -
  have h1: "list_all (\<lambda>p. \<not> limited p) (participants defaultValues)"
    by (simp add: defaultValues_def)
  have h2: "0 < length (participants defaultValues)" by (simp add: defaultValues_def)
  from C7_no_limited [OF h1 h2, of initialState] h1 h2 show ?thesis by simp
qed

text \<open>
  Claim C9 says that a limited participant's adjusted due lies between the limits when
  both are nonzero and the minimum is at most the maximum. A valid, finite input breaks
  it: an hourly rate of \<^verbatim>\<open>2^1023\<close> at 100 hours a week overflows to \<open>+Infinity\<close>,
  the percentage is infinity divided by infinity, the due is NaN, both comparisons of
  the clamping step are false, and the adjusted due is NaN.
\<close>

theorem C9_counterexample:
  "BillPay_numbers hugeRate \<and> BillPay_valid hugeRate \<and> BillPay_finite hugeRate
   \<and> limited (participants hugeRate ! 0)
   \<and> maximumLimit hugeRate = Fin 400 \<and> minimumLimit hugeRate = Fin 200
   \<and> jle (minimumLimit hugeRate) (maximumLimit hugeRate)
   \<and> grossMonthlyIncome (results (onValid hugeRate initialState) ! 0) = PInf
   \<and> amountDue (results (onValid hugeRate initialState) ! 0) = NaN
   \<and> adjustedDue (results (onValid hugeRate initialState) ! 0) = NaN
   \<and> \<not> jle (minimumLimit hugeRate) (adjustedDue (results (onValid hugeRate initialState) ! 0))"
proof -
  have h: "0 < length (participants hugeRate)" by (simp add: hugeRate_fields)
  have "BillPay_valid hugeRate"
    using pow2_pos [of 1023] by (simp add: BillPay_valid_def hugeRate_def jgt_def)
  moreover have "BillPay_finite hugeRate" by (simp add: BillPay_finite_def hugeRate_def)
  moreover note numbers_hugeRate
  ultimately show ?thesis
    by (simp add: results_nth [OF h] hugeRate_gross hugeRate_dues hugeRate_adjusted
          hugeRate_fields)
qed

text \<open>
  Claim C9, as the code has it. A limited participant whose unadjusted due is not NaN has
  an adjusted due between the minimum and the maximum limit, when both limits are nonzero
  and the minimum is at most the maximum.
\<close>

theorem C9_limited_within_band:
  assumes "index < length (participants data)" and "limited (participants data ! index)"
    and "maximumLimit data \<noteq> Fin 0" and "minimumLimit data \<noteq> Fin 0"
    and "jle (minimumLimit data) (maximumLimit data)"
    and "amountDue (results (onValid data s) ! index) \<noteq> NaN"
  shows "jle (minimumLimit data) (adjustedDue (results (onValid data s) ! index))
       \<and> jle (adjustedDue (results (onValid data s) ! index)) (maximumLimit data)"
proof -
  have d: "nonLimitedDues data ! index \<noteq> NaN"
    using assms(6) by (simp add: results_nth [OF assms(1)])
  have "adjustedDue (results (onValid data s) ! index)
      = fst (clamp_spec (maximumLimit data) (minimumLimit data) True (nonLimitedDues data ! index))"
    using assms(2)
    by (simp add: results_nth [OF assms(1)] adjustedDues_nth [OF assms(1)]
          limitedDues_nth [OF assms(1)] clampAt_def)
  then show ?thesis using clamp_spec_bounds [OF assms(3,4,5) d] by simp
qed

theorem C9_limited_within_band_witness:
  "0 < length (participants bandExample) \<and> limited (participants bandExample ! 0)
   \<and> minimumLimit bandExample = Fin 200 \<and> maximumLimit bandExample = Fin 400
   \<and> amountDue (results (onValid bandExample initialState) ! 0) = Fin 125
   \<and> jle (Fin 200) (adjustedDue (results (onValid bandExample initialState) ! 0))
   \<and> jle (adjustedDue (results (onValid bandExample initialState) ! 0)) (Fin 400)"
proof -
  have h1: "0 < length (participants bandExample)" by (simp add: bandExample_fields)
  have h2: "limited (participants bandExample ! 0)" by (simp add: bandExample_fields)
  have h3: "maximumLimit bandExample \<noteq> Fin 0" by (simp add: bandExample_fields)
  have h4: "minimumLimit bandExample \<noteq> Fin 0" by (simp add: bandExample_fields)
  have h5: "jle (minimumLimit bandExample) (maximumLimit bandExample)"
    by (simp add: bandExample_fields)
  have a: "amountDue (results (onValid bandExample initialState) ! 0) = Fin 125"
    by (simp add: results_nth [OF h1] bandExample_dues)
  have h6: "amountDue (results (onValid bandExample initialState) ! 0) \<noteq> NaN"
    by (simp add: a)
  from C9_limited_within_band [OF h1 h2 h3 h4 h5 h6] h1 h2 a
  show ?thesis by (simp add: bandExample_fields)
qed

section \<open>Conservation of the bill\<close>







section \<open>The shape of the result\<close>

text \<open>
  Claim C8. The handler stores one result per participant, in the order of the
  participants: the result at an index is the specification's allocation result for the
  participant at that index (its gross income, its percentage of the household total, its
  share of the bill, and that share clamped or increased by its part of the delta
  balance). The stored total is the sum of the gross incomes. What is stored depends on
  the submitted data only, not on the state before.
\<close>

theorem C8_results_by_index:
  "results (onValid data s) = map (result_spec data) [0 ..< length (participants data)]
   \<and> totalGrossState (onValid data s) = total_spec data
   \<and> results (onValid data s') = results (onValid data s)
   \<and> totalGrossState (onValid data s') = totalGrossState (onValid data s)"
proof -
  have "results (onValid data s) = map (result_spec data) [0 ..< length (participants data)]"
    by (rule nth_equalityI)
       (simp_all add: results_nth result_spec_def participantMonthlyGross_nth monthlyGross_spec
          incomePercentages_spec nonLimitedDues_spec adjustedDues_spec)
  moreover have "totalGrossState (onValid data s) = total_spec data" for s
    by (simp add: onValid_def totalGross_spec)
  moreover have "results (onValid data s') = results (onValid data s)"
    by (simp add: onValid_def)
  ultimately show ?thesis by simp
qed

section \<open>Degenerate inputs\<close>

text \<open>
  Claim C2 asks that a degenerate input (a zero income sum, or every participant limited
  with a nonzero delta balance) ends in a recognizable failure. The handler has no such
  branch. In scenario D every participant is limited and the delta balance is 200; the
  handler stores an ordinary result table and shows the result step, with adjusted dues
  of 400 and 400 for a bill of 1000.
\<close>

theorem C2_counterexample:
  "BillPay_numbers scenarioD \<and> BillPay_valid scenarioD \<and> BillPay_finite scenarioD
   \<and> list_all limited (participants scenarioD)
   \<and> deltaBalance scenarioD = Fin 200
   \<and> activeStep (onValid scenarioD initialState) = 2
   \<and> totalGrossState (onValid scenarioD initialState) = Fin 5000
   \<and> results (onValid scenarioD initialState) =
       [\<lparr> grossMonthlyIncome = Fin 2500, percentageOfTotal = Fin 50,
           amountDue = Fin 500, adjustedDue = Fin 400 \<rparr>,
        \<lparr> grossMonthlyIncome = Fin 2500, percentageOfTotal = Fin 50,
           amountDue = Fin 500, adjustedDue = Fin 400 \<rparr>]"
proof -
  have u: "[0 ..< 2] = [0, 1]" by code_simp
  have "BillPay_valid scenarioD" by (simp add: BillPay_valid_def scenarioD_def jgt_def)
  moreover have "BillPay_finite scenarioD" by (simp add: BillPay_finite_def scenarioD_def)
  moreover have "deltaBalance scenarioD = Fin 200"
    by (simp add: deltaBalance_def scenarioD_limits)
  moreover note numbers_examples(2)
  ultimately show ?thesis
    by (simp add: onValid_def scenarioD_total scenarioD_gross scenarioD_percentages
          scenarioD_dues scenarioD_adjusted scenarioD_fields u)
qed

text \<open>
  Claim C2, as the code has it. For every input, degenerate or not, the handler reports
  no failure: it stores one result per participant and the household total, marks the
  first two steps completed and shows the result step.
\<close>

theorem C2_no_failure_path:
  "activeStep (onValid data s) = 2
   \<and> completed (onValid data s) = [0 \<mapsto> True, 1 \<mapsto> True]
   \<and> length (results (onValid data s)) = length (participants data)
   \<and> totalGrossState (onValid data s) = totalGross data"
  by (simp add: onValid_def)

end
